theory Spec2Isabelle
  imports Complex_Main "HOL-Library.Char_ord" "HOL-Library.List_Lexorder"
begin

section \<open>Text as the handler sees it\<close>

text \<open>
  Strings are Python \<^verbatim>\<open>str\<close> values restricted to code points below 256, one
  \<^typ>\<open>char\<close> per code point. The order on \<^typ>\<open>string\<close> is the lexicographic order by
  code point, which is how Python compares \<^verbatim>\<open>str\<close> values.
\<close>

definition LF :: char where
  "LF = CHR 0x0A"

definition CR :: char where
  "CR = CHR 0x0D"

text \<open>\<^verbatim>\<open>str.isspace\<close> on one code point below 256.\<close>

definition is_space :: "char \<Rightarrow> bool" where
  "is_space c =
     (let n = (of_char c :: nat)
      in (9 \<le> n \<and> n \<le> 13) \<or> (28 \<le> n \<and> n \<le> 32) \<or> n = 133 \<or> n = 160)"

text \<open>\<^verbatim>\<open>str.strip()\<close>: leading and trailing whitespace removed.\<close>

definition strip :: "string \<Rightarrow> string" where
  "strip s = rev (dropWhile is_space (rev (dropWhile is_space s)))"

text \<open>\<^verbatim>\<open>str.lower()\<close> on code points below 256.\<close>

definition lower_char :: "char \<Rightarrow> char" where
  "lower_char c =
     (let n = (of_char c :: nat)
      in if (65 \<le> n \<and> n \<le> 90) \<or> (192 \<le> n \<and> n \<le> 222 \<and> n \<noteq> 215)
         then char_of (n + 32) else c)"

definition lower :: "string \<Rightarrow> string" where
  "lower s = map lower_char s"

text \<open>
  Iterating over a file opened in text mode with the default \<^verbatim>\<open>newline=None\<close>:
  \<^verbatim>\<open>\r\n\<close>, \<^verbatim>\<open>\r\<close> and \<^verbatim>\<open>\n\<close> all end a line and are delivered as \<^verbatim>\<open>\n\<close>; each
  line keeps its terminator, and a last line without terminator is delivered as it is.
  The first argument is the line read so far.
\<close>

fun file_lines :: "string \<Rightarrow> string \<Rightarrow> string list" where
  "file_lines cur [] = (if cur = [] then [] else [cur])"
| "file_lines cur [c] = (if c = CR \<or> c = LF then [cur @ [LF]] else [cur @ [c]])"
| "file_lines cur (c # d # cs) =
     (if c = CR \<and> d = LF then (cur @ [LF]) # file_lines [] cs
      else if c = CR \<or> c = LF then (cur @ [LF]) # file_lines [] (d # cs)
      else file_lines (cur @ [c]) (d # cs))"

section \<open>The environment of one critical section\<close>

text \<open>
  What the handler asks of the operating system and of \<^verbatim>\<open>pathlib\<close>, \<^verbatim>\<open>time\<close>,
  \<^verbatim>\<open>filelock\<close> and \<^verbatim>\<open>subprocess\<close> is a parameter of the model:
  \<^item> \<open>path_str s\<close> is \<^verbatim>\<open>str(Path(s))\<close> and \<open>path_name s\<close> is \<^verbatim>\<open>Path(s).name\<close>;
  \<^item> \<open>path_exists s\<close> is \<^verbatim>\<open>Path(s).exists()\<close>: \<open>Some True\<close> or \<open>Some False\<close> when
    the call returns, \<open>None\<close> when it raises (as it does for a path that the operating
    system refuses to examine);
  \<^item> \<open>merge_script\<close> is \<^verbatim>\<open>str(Path(__file__).parent / 'merge_pdfs.py')\<close>;
  \<^item> \<open>now\<close> is what \<^verbatim>\<open>time.time()\<close> returns inside the critical section;
  \<^item> \<open>float_sub a b\<close> is the double that \<^verbatim>\<open>a - b\<close> yields for two finite doubles,
    which is the exact difference only up to rounding;
  \<^item> \<open>lock_acquired\<close> tells whether \<^verbatim>\<open>with lock_file:\<close> got the lock within its
    10 seconds (otherwise \<^verbatim>\<open>filelock.Timeout\<close> is raised);
  \<^item> \<open>popen_raises\<close> tells whether lines 109 to 117, which build the
    \<^verbatim>\<open>STARTUPINFO\<close> and call \<^verbatim>\<open>subprocess.Popen\<close>, raise.
\<close>

record env =
  path_str :: "string \<Rightarrow> string"
  path_exists :: "string \<Rightarrow> bool option"
  path_name :: "string \<Rightarrow> string"
  merge_script :: string
  now :: real
  float_sub :: "real \<Rightarrow> real \<Rightarrow> real"
  lock_acquired :: bool
  popen_raises :: bool

section \<open>Session state\<close>

text \<open>
  A file is absent, present with a content that cannot be read as what the reader
  expects (text that does not decode, a timestamp that \<^verbatim>\<open>float\<close> rejects), or present
  with a content.
\<close>

datatype 'a disk_file = Absent | Unreadable | Content 'a

datatype session_file = Collection | Timestamp | Launcher_flag

text \<open>
  What \<^verbatim>\<open>float\<close> returns for a text it accepts: a finite number, or one of the
  special values that it reads from \<^verbatim>\<open>inf\<close>, \<^verbatim>\<open>-inf\<close> and \<^verbatim>\<open>nan\<close>.
\<close>

datatype pyfloat = Number real | Plus_inf | Minus_inf | Nan

text \<open>
  The arguments of \<^verbatim>\<open>subprocess.Popen\<close> at lines 113 to 117: the command, the two
  fields of the \<^verbatim>\<open>STARTUPINFO\<close> that lines 110 and 111 set, and the creation flags.
\<close>

record popen_call =
  args :: "string list"
  dwFlags :: int
  wShowWindow :: int
  creationflags :: int

text \<open>The constants of \<^verbatim>\<open>subprocess\<close> and of the Windows API that the handler uses.\<close>

definition STARTF_USESHOWWINDOW :: int where
  "STARTF_USESHOWWINDOW = 1"

definition SW_HIDE :: int where
  "SW_HIDE = 0"

definition CREATE_NO_WINDOW :: int where
  "CREATE_NO_WINDOW = 0x08000000"

text \<open>
  The calls that change the file system, start a process or write to the error log, in
  the order they are made.
\<close>

datatype event =
    Append_collection string
  | Write_timestamp real
  | Write_flag
  | Unlink session_file
  | Popen popen_call
  | Log_error

text \<open>
  The files of \<^verbatim>\<open>get_session_files\<close> (the lock file apart, which only \<^verbatim>\<open>filelock\<close>
  touches): the collection as text, the timestamp as the value that
  \<^verbatim>\<open>float(f.read().strip())\<close> yields, the launcher flag as present or not.
\<close>

record world =
  collection :: "string disk_file"
  timestamp :: "pyfloat disk_file"
  launcher_flag :: bool
  events :: "event list"

definition pyw_exe :: string where
  "pyw_exe = ''C:'' @ [CHR 0x5C] @ ''WINDOWS'' @ [CHR 0x5C] @ ''pyw.exe''"

section \<open>Resolution: lines 72 to 91\<close>

text \<open>
  \<^verbatim>\<open>[line.strip() for line in f if line.strip() and Path(line.strip()).exists()]\<close>:
  \<open>None\<close> when \<^verbatim>\<open>exists()\<close> raises for one of the lines it is asked about.
\<close>

fun all_files :: "env \<Rightarrow> string list \<Rightarrow> string list option" where
  "all_files e [] = Some []"
| "all_files e (line # rest) =
     (if strip line = [] then all_files e rest
      else case path_exists e (strip line) of
          None \<Rightarrow> None
        | Some False \<Rightarrow> all_files e rest
        | Some True \<Rightarrow>
            (case all_files e rest of None \<Rightarrow> None | Some found \<Rightarrow> Some (strip line # found)))"

text \<open>The loop over \<^verbatim>\<open>all_files\<close> with its \<^verbatim>\<open>seen\<close> set and its \<^verbatim>\<open>unique_files\<close> list.\<close>

fun remove_duplicates :: "string set \<Rightarrow> string list \<Rightarrow> string list \<Rightarrow> string list" where
  "remove_duplicates seen unique_files [] = unique_files"
| "remove_duplicates seen unique_files (file # rest) =
     (if file \<notin> seen
      then remove_duplicates (insert file seen) (unique_files @ [file]) rest
      else remove_duplicates seen unique_files rest)"

text \<open>\<^verbatim>\<open>key=lambda x: Path(x).name.lower()\<close>\<close>

definition sort_name :: "env \<Rightarrow> string \<Rightarrow> string" where
  "sort_name e x = lower (path_name e x)"

text \<open>
  The whole \<^verbatim>\<open>try\<close> block of lines 73 to 91: \<open>None\<close> when opening or decoding the
  collection raises or \<^verbatim>\<open>exists()\<close> raises at line 77 (the bare \<^verbatim>\<open>except\<close> returns),
  otherwise the sorted list. \<^verbatim>\<open>list.sort\<close> is stable, as \<^const>\<open>sort_key\<close> is.
\<close>

definition collect_files :: "env \<Rightarrow> string disk_file \<Rightarrow> string list option" where
  "collect_files e f =
     (case f of
        Content text \<Rightarrow>
          (case all_files e (file_lines [] text) of
             None \<Rightarrow> None
           | Some found \<Rightarrow> Some (sort_key (sort_name e) (remove_duplicates {} [] found)))
      | _ \<Rightarrow> None)"

section \<open>The handler\<close>

text \<open>
  How one critical section of \<^verbatim>\<open>main\<close> ends. \<^verbatim>\<open>main\<close> itself returns nothing; the
  outcome names the \<^verbatim>\<open>return\<close> or \<^verbatim>\<open>except\<close> that was taken. \<open>Uncaught_exception\<close>
  is an exception of line 26, which is outside the \<^verbatim>\<open>try\<close>; \<open>Error_logged\<close> is the
  handler of line 122.
\<close>

datatype outcome =
    No_argument
  | Path_not_found
  | Uncaught_exception
  | Lock_timeout
  | Registered
  | Launcher_exists
  | Timestamp_unreadable
  | Too_recent
  | Collection_unreadable
  | Error_logged
  | Finished "string list"

text \<open>
  \<^verbatim>\<open>open(path, 'a')\<close> followed by one \<^verbatim>\<open>write\<close>: creates the file when it is absent
  and leaves what is there in front of the new text.
\<close>

definition append_text :: "string disk_file \<Rightarrow> string \<Rightarrow> string disk_file" where
  "append_text f s =
     (case f of Absent \<Rightarrow> Content s | Unreadable \<Rightarrow> Unreadable | Content t \<Rightarrow> Content (t @ s))"

text \<open>\<^verbatim>\<open>unlink(missing_ok=True)\<close>\<close>

fun unlink :: "session_file \<Rightarrow> world \<Rightarrow> world" where
  "unlink Collection w = w\<lparr>collection := Absent, events := events w @ [Unlink Collection]\<rparr>"
| "unlink Timestamp w = w\<lparr>timestamp := Absent, events := events w @ [Unlink Timestamp]\<rparr>"
| "unlink Launcher_flag w = w\<lparr>launcher_flag := False, events := events w @ [Unlink Launcher_flag]\<rparr>"

text \<open>
  Lines 36 to 44, the body of the first \<^verbatim>\<open>with lock_file:\<close>. The timestamp file
  receives \<^verbatim>\<open>str(time.time())\<close>, which \<^verbatim>\<open>float\<close> reads back as the same number.
\<close>

definition register :: "env \<Rightarrow> string \<Rightarrow> world \<Rightarrow> world" where
  "register e file_path w =
     unlink Launcher_flag
       (w\<lparr>collection := append_text (collection w) (file_path @ [LF]),
          timestamp := Content (Number (now e)),
          events := events w @ [Append_collection (file_path @ [LF]), Write_timestamp (now e)]\<rparr>)"

text \<open>
  Lines 22 to 44. A \<^verbatim>\<open>Path\<close> is represented by its string, so \<^verbatim>\<open>file_path\<close> is
  \<open>path_str e (argv ! 1)\<close>.
\<close>

definition registration :: "env \<Rightarrow> string list \<Rightarrow> world \<Rightarrow> outcome \<times> world" where
  "registration e argv w =
     (if length argv < 2 then (No_argument, w)
      else let file_path = path_str e (argv ! 1)
        in case path_exists e file_path of
             None \<Rightarrow> (Uncaught_exception, w)
           | Some False \<Rightarrow> (Path_not_found, w)
           | Some True \<Rightarrow>
               if \<not> lock_acquired e then (Lock_timeout, w)
               else (Registered, register e file_path w))"

text \<open>
  \<^verbatim>\<open>time.time() - last_time < 0.5\<close> at lines 62 and 65. The difference with
  \<^verbatim>\<open>inf\<close> is \<^verbatim>\<open>-inf\<close>, with \<^verbatim>\<open>-inf\<close> it is \<^verbatim>\<open>inf\<close>, with \<^verbatim>\<open>nan\<close> it is \<^verbatim>\<open>nan\<close>, and
  every comparison with \<^verbatim>\<open>nan\<close> is false.
\<close>

definition time_diff_below :: "env \<Rightarrow> pyfloat \<Rightarrow> bool" where
  "time_diff_below e last_time =
     (case last_time of
        Number t \<Rightarrow> float_sub e (now e) t < 0.5
      | Plus_inf \<Rightarrow> True
      | Minus_inf \<Rightarrow> False
      | Nan \<Rightarrow> False)"

text \<open>Lines 94 and 95.\<close>

definition cleanup :: "world \<Rightarrow> world" where
  "cleanup w = unlink Launcher_flag (unlink Timestamp (unlink Collection w))"

text \<open>The handler of line 122, which appends one line to the error log.\<close>

definition log_error :: "world \<Rightarrow> world" where
  "log_error w = w\<lparr>events := events w @ [Log_error]\<rparr>"

text \<open>
  Lines 109 to 117. \<^verbatim>\<open>STARTUPINFO()\<close> starts with \<^verbatim>\<open>dwFlags\<close> 0, so after line 110
  it is \<^verbatim>\<open>STARTF_USESHOWWINDOW\<close>. The handler keeps no reference to the process and does
  not wait for it.
\<close>

definition popen :: "string list \<Rightarrow> world \<Rightarrow> world" where
  "popen cmd w =
     w\<lparr>events := events w @
         [Popen \<lparr>args = cmd, dwFlags = STARTF_USESHOWWINDOW, wShowWindow = 0,
                 creationflags = CREATE_NO_WINDOW\<rparr>]\<rparr>"

text \<open>
  Lines 98 to 117. \<^verbatim>\<open>and\<close> asks about the merge script only when \<^verbatim>\<open>pyw.exe\<close>
  exists.
\<close>

definition launch :: "env \<Rightarrow> string list \<Rightarrow> world \<Rightarrow> outcome \<times> world" where
  "launch e unique_files w =
     (if length unique_files \<ge> 1
      then case path_exists e pyw_exe of
             None \<Rightarrow> (Error_logged, log_error w)
           | Some False \<Rightarrow> (Finished unique_files, w)
           | Some True \<Rightarrow>
               (case path_exists e (merge_script e) of
                  None \<Rightarrow> (Error_logged, log_error w)
                | Some False \<Rightarrow> (Finished unique_files, w)
                | Some True \<Rightarrow>
                    if popen_raises e then (Error_logged, log_error w)
                    else (Finished unique_files,
                          popen ([pyw_exe, merge_script e] @ unique_files) w))
      else (Finished unique_files, w))"

text \<open>Lines 50 to 121, the second \<^verbatim>\<open>with lock_file:\<close>.\<close>

definition election :: "env \<Rightarrow> world \<Rightarrow> outcome \<times> world" where
  "election e w =
     (if \<not> lock_acquired e then (Lock_timeout, w)
      else if launcher_flag w then (Launcher_exists, w)
      else case timestamp w of
          Content last_time \<Rightarrow>
            if time_diff_below e last_time then (Too_recent, w)
            else let w1 = w\<lparr>launcher_flag := True, events := events w @ [Write_flag]\<rparr>
              in (case collect_files e (collection w1) of
                    None \<Rightarrow> (Collection_unreadable, w1)
                  | Some unique_files \<Rightarrow> launch e unique_files (cleanup w1))
        | _ \<Rightarrow> (Timestamp_unreadable, w))"

text \<open>
  One run of \<^verbatim>\<open>main\<close>: the first critical section in environment \<open>e1\<close>, then
  \<^verbatim>\<open>time.sleep(0.6)\<close>, during which the other processes change the world by \<open>siblings\<close>,
  then the second critical section in environment \<open>e2\<close>.
\<close>

definition main :: "env \<Rightarrow> (world \<Rightarrow> world) \<Rightarrow> env \<Rightarrow> string list \<Rightarrow> world \<Rightarrow> outcome \<times> world" where
  "main e1 siblings e2 argv w =
     (case registration e1 argv w of
        (Registered, w1) \<Rightarrow> election e2 (siblings w1)
      | r \<Rightarrow> r)"

section \<open>The resolution as the specification words it\<close>

text \<open>
  The path strings of a collection snapshot: its lines without surrounding whitespace,
  blank lines left out.
\<close>

definition collection_entries :: "string \<Rightarrow> string list" where
  "collection_entries text = filter (\<lambda>s. s \<noteq> []) (map strip (file_lines [] text))"

text \<open>Deduplication that keeps every element at its first occurrence.\<close>

fun first_occurrences :: "'a list \<Rightarrow> 'a list" where
  "first_occurrences [] = []"
| "first_occurrences (x # xs) = x # removeAll x (first_occurrences xs)"

text \<open>
  Comparing without regard to case: every capital letter, \<^verbatim>\<open>A\<close> to \<^verbatim>\<open>Z\<close> and the
  accented capitals of Latin-1, counts as its small letter, 32 code points further on.
\<close>

definition capital_letters :: "nat list" where
  "capital_letters = [65..<91] @ [192..<215] @ [216..<223]"

definition fold_case :: "string \<Rightarrow> string" where
  "fold_case s =
     map (\<lambda>c. if of_char c \<in> set capital_letters then char_of (of_char c + 32 :: nat) else c) s"

text \<open>The key of the order: the filename component of the path, without regard to case.\<close>

definition name_key :: "env \<Rightarrow> string \<Rightarrow> string" where
  "name_key e p = fold_case (path_name e p)"

text \<open>Filter to the existing paths, deduplicate, sort by that key.\<close>

definition spec_resolve :: "env \<Rightarrow> string list \<Rightarrow> string list" where
  "spec_resolve e entries =
     sort_key (name_key e) (first_occurrences (filter (\<lambda>p. path_exists e p = Some True) entries))"

text \<open>
  A Windows path string that names a location by itself: a drive followed by a
  separator, or two leading separators.
\<close>

definition is_sep :: "char \<Rightarrow> bool" where
  "is_sep c \<longleftrightarrow> c = CHR ''/'' \<or> c = CHR 0x5C"

definition is_absolute :: "string \<Rightarrow> bool" where
  "is_absolute p \<longleftrightarrow>
     (3 \<le> length p \<and> p ! 1 = CHR '':'' \<and> is_sep (p ! 2))
   \<or> (2 \<le> length p \<and> is_sep (p ! 0) \<and> is_sep (p ! 1))"


section \<open>A sequence of later elections\<close>


section \<open>Concrete environments and worlds\<close>

text \<open>
  \<^verbatim>\<open>Path(s).name\<close> on Windows for a path string without a UNC or device prefix: the
  drive is set aside, the rest is cut at the separators, empty components and \<^verbatim>\<open>.\<close>
  are dropped, and the last component that remains is the name (the empty string when
  none remains).
\<close>

fun components :: "string \<Rightarrow> string \<Rightarrow> string list" where
  "components cur [] = [cur]"
| "components cur (c # cs) =
     (if is_sep c then cur # components [] cs else components (cur @ [c]) cs)"

definition without_drive :: "string \<Rightarrow> string" where
  "without_drive s = (if 2 \<le> length s \<and> s ! 1 = CHR '':'' then drop 2 s else s)"

definition windows_name :: "string \<Rightarrow> string" where
  "windows_name s =
     (case rev (filter (\<lambda>p. p \<noteq> [] \<and> p \<noteq> ''.'') (components [] (without_drive s))) of
        [] \<Rightarrow> []
      | p # ps \<Rightarrow> p)"

text \<open>
  The clocks of the examples are multiples of 1/8, for which the subtraction of doubles
  is exact.
\<close>

definition example_env :: env where
  "example_env =
     \<lparr>path_str = (\<lambda>s. s), path_exists = (\<lambda>s. Some True), path_name = windows_name,
      merge_script = ''merge_pdfs.py'', now = 0, float_sub = (\<lambda>a b. a - b),
      lock_acquired = True, popen_raises = False\<rparr>"

definition later_env :: env where
  "later_env = example_env\<lparr>now := 0.75\<rparr>"


definition timeout_env :: env where
  "timeout_env = example_env\<lparr>now := 0.75, lock_acquired := False\<rparr>"


definition nothing_exists_env :: env where
  "nothing_exists_env = example_env\<lparr>path_exists := (\<lambda>s. Some False)\<rparr>"

definition refusing_env :: env where
  "refusing_env = example_env\<lparr>path_exists := (\<lambda>s. None), now := 1\<rparr>"

text \<open>Every path exists but \<^verbatim>\<open>/x/gone.pdf\<close>.\<close>

definition folder_env :: env where
  "folder_env = example_env\<lparr>path_exists := (\<lambda>s. Some (s \<noteq> ''/x/gone.pdf''))\<rparr>"

text \<open>
  A collection with a blank line, surrounding blanks, a \<^verbatim>\<open>\r\n\<close>, a path that is gone,
  a repeated path, names in both cases and a last line without terminator.
\<close>

definition folder_text :: string where
  "folder_text =
     ''/z/a.pdf'' @ [LF, LF] @ ''  /y/B.pdf  '' @ [CR, LF] @ ''/x/gone.pdf'' @ [LF] @
     ''/z/a.pdf'' @ [LF] @ ''/w/C.PDF'' @ [LF] @ ''/v/b.PDF''"

definition handler_argv :: "string \<Rightarrow> string list" where
  "handler_argv arg = [''merge_pdf_handler.py'', arg]"

definition fresh_world :: world where
  "fresh_world = \<lparr>collection = Absent, timestamp = Absent, launcher_flag = False, events = []\<rparr>"

definition quiet_world :: world where
  "quiet_world =
     \<lparr>collection = Content (''a.pdf'' @ [LF]), timestamp = Content (Number 0),
      launcher_flag = False, events = []\<rparr>"


definition orphan_world :: world where
  "orphan_world = quiet_world\<lparr>collection := Absent\<rparr>"


section \<open>A wave of instances\<close>

text \<open>
  The critical sections of several instances of \<^verbatim>\<open>main\<close>, in the order in which they
  hold the lock. Each carries the number of its instance and what \<^verbatim>\<open>time.time()\<close>
  returns inside it; a registration also carries its \<^verbatim>\<open>sys.argv\<close>.
\<close>

datatype action = Registers nat "string list" real | Elects nat real




fun perform :: "env \<Rightarrow> action \<Rightarrow> world \<Rightarrow> world" where
  "perform e (Registers i argv t) w = snd (registration (e\<lparr>now := t\<rparr>) argv w)"
| "perform e (Elects i t) w = snd (election (e\<lparr>now := t\<rparr>) w)"

fun run :: "env \<Rightarrow> action list \<Rightarrow> world \<Rightarrow> world" where
  "run e [] w = w"
| "run e (a # sch) w = run e sch (perform e a w)"













section \<open>Facts about the resolution\<close>

lemma all_files_filter:
  "all_files e ls =
     (if \<exists>p \<in> set (filter (\<lambda>s. s \<noteq> []) (map strip ls)). path_exists e p = None then None
      else Some (filter (\<lambda>p. path_exists e p = Some True)
                   (filter (\<lambda>s. s \<noteq> []) (map strip ls))))"
  by (induction ls) (auto split: option.splits bool.splits)

lemma set_first_occurrences: "set (first_occurrences xs) = set xs"
  by (induction xs) auto

lemma distinct_first_occurrences: "distinct (first_occurrences xs)"
  by (induction xs) (auto simp: distinct_removeAll)

lemma first_occurrences_distinct: "distinct xs \<Longrightarrow> first_occurrences xs = xs"
  by (induction xs) (auto simp: set_first_occurrences)

lemma remove_duplicates_first_occurrences:
  "remove_duplicates seen acc xs = acc @ filter (\<lambda>x. x \<notin> seen) (first_occurrences xs)"
proof (induction xs arbitrary: seen acc)
  case Nil
  show ?case by simp
next
  case (Cons x xs)
  have drop_x: "filter (\<lambda>y. y \<notin> insert x seen) ys = filter (\<lambda>y. y \<notin> seen) (removeAll x ys)" for ys
    by (induction ys) auto
  show ?case
  proof (cases "x \<in> seen")
    case True
    have "filter (\<lambda>y. y \<notin> seen) (removeAll x ys) = filter (\<lambda>y. y \<notin> seen) ys" for ys
      using True by (induction ys) auto
    with True Cons.IH show ?thesis by simp
  next
    case False
    with Cons.IH [of "insert x seen" "acc @ [x]"] drop_x show ?thesis by simp
  qed
qed

lemma set_capital_letters: "set capital_letters = {65..<91} \<union> {192..<215} \<union> {216..<223}"
  by (simp only: capital_letters_def set_append set_upt Un_assoc)

lemma lower_char_fold:
  "lower_char c = (if of_char c \<in> set capital_letters then char_of (of_char c + 32 :: nat) else c)"
  by (auto simp: lower_char_def set_capital_letters Let_def)

lemma lower_fold_case: "lower s = fold_case s"
  by (simp add: lower_def fold_case_def lower_char_fold)

lemma sort_name_key: "sort_name e = name_key e"
  by (rule ext) (simp add: sort_name_def name_key_def lower_fold_case)

lemma collect_files_spec:
  "collect_files e (Content text) =
     (if \<exists>p \<in> set (collection_entries text). path_exists e p = None then None
      else Some (spec_resolve e (collection_entries text)))"
  by (simp add: collect_files_def spec_resolve_def collection_entries_def all_files_filter
      remove_duplicates_first_occurrences sort_name_key)

lemma collect_files_exist:
  "collect_files e f = Some fs \<Longrightarrow> p \<in> set fs \<Longrightarrow> path_exists e p = Some True"
proof (cases f)
  case (Content t)
  then show "collect_files e f = Some fs \<Longrightarrow> p \<in> set fs \<Longrightarrow> path_exists e p = Some True"
    by (auto simp: collect_files_spec spec_resolve_def set_first_occurrences split: if_splits)
qed (simp_all add: collect_files_def)

section \<open>Facts about the election\<close>

lemma launch_world:
  "launch e fs w =
     (if fs = [] \<or> path_exists e pyw_exe = Some False
         \<or> (path_exists e pyw_exe = Some True \<and> path_exists e (merge_script e) = Some False)
      then (Finished fs, w)
      else if path_exists e pyw_exe = Some True \<and> path_exists e (merge_script e) = Some True
              \<and> \<not> popen_raises e
      then (Finished fs, popen ([pyw_exe, merge_script e] @ fs) w)
      else (Error_logged, log_error w))"
  by (cases fs) (auto simp: launch_def split: option.splits bool.splits)

lemma election_leads:
  assumes "lock_acquired e" and "\<not> launcher_flag w" and "timestamp w = Content last_time"
    and "\<not> time_diff_below e last_time" and "collect_files e (collection w) = Some fs"
  shows "election e w =
      launch e fs
        \<lparr>collection = Absent, timestamp = Absent, launcher_flag = False,
         events = events w @ [Write_flag, Unlink Collection, Unlink Timestamp,
            Unlink Launcher_flag]\<rparr>"
proof -
  have "cleanup (w\<lparr>launcher_flag := True, events := events w @ [Write_flag]\<rparr>) =
      \<lparr>collection = Absent, timestamp = Absent, launcher_flag = False,
       events = events w @ [Write_flag, Unlink Collection, Unlink Timestamp,
          Unlink Launcher_flag]\<rparr>"
    by (cases w) (simp add: cleanup_def)
  with assms show ?thesis
    by (simp add: election_def)
qed







section \<open>Facts about the text of the collection\<close>







section \<open>Facts about a wave\<close>

















section \<open>The claims\<close>

text \<open>
  C2. For every collection snapshot that the leader reads, the resolved list is the
  snapshot's path strings filtered to the paths that exist at resolution time, then
  deduplicated keeping first occurrences, then sorted by the filename component without
  regard to case; when \<^verbatim>\<open>exists()\<close> raises for one of the path strings there is no
  resolved list. The list so described is in the order of that key, paths with the same
  key keep the order of their first occurrences, it has no duplicates, and it holds
  exactly the existing entries.
\<close>

theorem collect_files_resolves:
  "collect_files e (Content text) =
     (if \<exists>p \<in> set (collection_entries text). path_exists e p = None then None
      else Some (spec_resolve e (collection_entries text)))
   \<and> sorted (map (\<lambda>p. fold_case (path_name e p)) (spec_resolve e (collection_entries text)))
   \<and> filter (\<lambda>p. fold_case (path_name e p) = k) (spec_resolve e (collection_entries text))
       = filter (\<lambda>p. fold_case (path_name e p) = k)
           (first_occurrences (filter (\<lambda>p. path_exists e p = Some True) (collection_entries text)))
   \<and> distinct (spec_resolve e (collection_entries text))
   \<and> set (spec_resolve e (collection_entries text))
       = {p \<in> set (collection_entries text). path_exists e p = Some True}"
proof (intro conjI)
  have key: "(\<lambda>p. fold_case (path_name e p)) = name_key e"
    by (rule ext) (simp add: name_key_def)
  show "collect_files e (Content text) =
     (if \<exists>p \<in> set (collection_entries text). path_exists e p = None then None
      else Some (spec_resolve e (collection_entries text)))"
    by (rule collect_files_spec)
  show "sorted (map (\<lambda>p. fold_case (path_name e p)) (spec_resolve e (collection_entries text)))"
    unfolding key by (simp add: spec_resolve_def)
  show "filter (\<lambda>p. fold_case (path_name e p) = k) (spec_resolve e (collection_entries text))
       = filter (\<lambda>p. fold_case (path_name e p) = k)
           (first_occurrences (filter (\<lambda>p. path_exists e p = Some True) (collection_entries text)))"
    using sort_key_stable [of "name_key e" k]
    by (simp add: spec_resolve_def name_key_def)
  show "distinct (spec_resolve e (collection_entries text))"
    by (simp add: spec_resolve_def distinct_first_occurrences)
  show "set (spec_resolve e (collection_entries text))
       = {p \<in> set (collection_entries text). path_exists e p = Some True}"
    by (auto simp: spec_resolve_def set_first_occurrences)
qed

text \<open>
  The example of the claim: \<^verbatim>\<open>b.pdf\<close>, \<^verbatim>\<open>a.pdf\<close>, \<^verbatim>\<open>c.pdf\<close> registered in that order
  resolve to \<^verbatim>\<open>a.pdf\<close>, \<^verbatim>\<open>b.pdf\<close>, \<^verbatim>\<open>c.pdf\<close>. In the second example the order by
  whole path and the order that regards case both differ from the resolved one. In the
  third \<^verbatim>\<open>exists()\<close> raises.
\<close>

theorem collect_files_resolves_witness:
  "collection (register example_env ''c.pdf''
      (register example_env ''a.pdf'' (register example_env ''b.pdf'' fresh_world)))
     = Content (''b.pdf'' @ [LF] @ ''a.pdf'' @ [LF] @ ''c.pdf'' @ [LF])
   \<and> collect_files example_env (Content (''b.pdf'' @ [LF] @ ''a.pdf'' @ [LF] @ ''c.pdf'' @ [LF]))
     = Some [''a.pdf'', ''b.pdf'', ''c.pdf'']
   \<and> collect_files folder_env (Content folder_text)
     = Some [''/z/a.pdf'', ''/y/B.pdf'', ''/v/b.PDF'', ''/w/C.PDF'']
   \<and> map (\<lambda>p. fold_case (path_name folder_env p))
        [''/z/a.pdf'', ''/y/B.pdf'', ''/v/b.PDF'', ''/w/C.PDF'']
     = [''a.pdf'', ''b.pdf'', ''b.pdf'', ''c.pdf'']
   \<and> collect_files refusing_env (Content folder_text) = None"
proof -
  have reg: "collection (register example_env ''c.pdf''
      (register example_env ''a.pdf'' (register example_env ''b.pdf'' fresh_world)))
     = Content (''b.pdf'' @ [LF] @ ''a.pdf'' @ [LF] @ ''c.pdf'' @ [LF])"
    by (simp add: register_def fresh_world_def append_text_def)
  have "(if \<exists>p \<in> set (collection_entries (''b.pdf'' @ [LF] @ ''a.pdf'' @ [LF] @ ''c.pdf'' @ [LF])).
            path_exists example_env p = None then None
         else Some (spec_resolve example_env
                (collection_entries (''b.pdf'' @ [LF] @ ''a.pdf'' @ [LF] @ ''c.pdf'' @ [LF]))))
       = Some [''a.pdf'', ''b.pdf'', ''c.pdf'']"
    by code_simp
  with collect_files_resolves
    [of example_env "''b.pdf'' @ [LF] @ ''a.pdf'' @ [LF] @ ''c.pdf'' @ [LF]"]
  have abc: "collect_files example_env
      (Content (''b.pdf'' @ [LF] @ ''a.pdf'' @ [LF] @ ''c.pdf'' @ [LF]))
     = Some [''a.pdf'', ''b.pdf'', ''c.pdf'']"
    by simp
  have "(if \<exists>p \<in> set (collection_entries folder_text). path_exists folder_env p = None then None
         else Some (spec_resolve folder_env (collection_entries folder_text)))
       = Some [''/z/a.pdf'', ''/y/B.pdf'', ''/v/b.PDF'', ''/w/C.PDF'']"
    by code_simp
  with collect_files_resolves [of folder_env folder_text]
  have folder: "collect_files folder_env (Content folder_text)
     = Some [''/z/a.pdf'', ''/y/B.pdf'', ''/v/b.PDF'', ''/w/C.PDF'']"
    by simp
  have keys: "map (\<lambda>p. fold_case (path_name folder_env p))
        [''/z/a.pdf'', ''/y/B.pdf'', ''/v/b.PDF'', ''/w/C.PDF'']
     = [''a.pdf'', ''b.pdf'', ''b.pdf'', ''c.pdf'']"
    by code_simp
  have "(if \<exists>p \<in> set (collection_entries folder_text). path_exists refusing_env p = None then None
         else Some (spec_resolve refusing_env (collection_entries folder_text))) = None"
    by code_simp
  with collect_files_resolves [of refusing_env folder_text]
  have refusing: "collect_files refusing_env (Content folder_text) = None"
    by simp
  from reg abc folder keys refusing show ?thesis by (intro conjI)
qed




text \<open>
  C4. The cleanup leaves none of the three session files, whatever was there before
  (files that are already missing included), and issues its three \<^verbatim>\<open>unlink\<close> calls in
  order. A leader whose reading of the collection has not raised ends with all three
  files absent, and its \<^verbatim>\<open>unlink\<close> calls come before anything else it does after
  writing the flag: the one \<^verbatim>\<open>Popen\<close> call, if there is one, or the entry in the error
  log when the launch step raises.
\<close>

theorem cleanup_precedes_launch:
  assumes "lock_acquired e" and "\<not> launcher_flag w" and "timestamp w = Content last_time"
    and "\<not> time_diff_below e last_time"
    and "collect_files e (collection w) = Some unique_files"
  shows "collection (cleanup w0) = Absent \<and> timestamp (cleanup w0) = Absent
     \<and> \<not> launcher_flag (cleanup w0)
     \<and> events (cleanup w0) = events w0 @ [Unlink Collection, Unlink Timestamp, Unlink Launcher_flag]
     \<and> fst (election e w) \<in> {Finished unique_files, Error_logged}
     \<and> (\<exists>after.
          snd (election e w) =
            \<lparr>collection = Absent, timestamp = Absent, launcher_flag = False,
             events = events w @ [Write_flag, Unlink Collection, Unlink Timestamp,
                Unlink Launcher_flag] @ after\<rparr>
          \<and> (after = [] \<or> after = [Log_error]
             \<or> after = [Popen \<lparr>args = [pyw_exe, merge_script e] @ unique_files,
                   dwFlags = STARTF_USESHOWWINDOW, wShowWindow = SW_HIDE,
                   creationflags = CREATE_NO_WINDOW\<rparr>]))"
proof -
  let ?v = "\<lparr>collection = Absent, timestamp = Absent, launcher_flag = False,
     events = events w @ [Write_flag, Unlink Collection, Unlink Timestamp, Unlink Launcher_flag]\<rparr>"
  have run: "election e w = launch e unique_files ?v"
    using election_leads [OF assms] .
  have files: "collection (cleanup w0) = Absent \<and> timestamp (cleanup w0) = Absent
     \<and> \<not> launcher_flag (cleanup w0)
     \<and> events (cleanup w0) = events w0 @ [Unlink Collection, Unlink Timestamp, Unlink Launcher_flag]"
    by (simp add: cleanup_def)
  have out: "fst (election e w) \<in> {Finished unique_files, Error_logged}"
    unfolding run by (simp add: launch_world)
  have "\<exists>after.
          snd (launch e unique_files ?v) =
            \<lparr>collection = Absent, timestamp = Absent, launcher_flag = False,
             events = events w @ [Write_flag, Unlink Collection, Unlink Timestamp,
                Unlink Launcher_flag] @ after\<rparr>
          \<and> (after = [] \<or> after = [Log_error]
             \<or> after = [Popen \<lparr>args = [pyw_exe, merge_script e] @ unique_files,
                   dwFlags = STARTF_USESHOWWINDOW, wShowWindow = SW_HIDE,
                   creationflags = CREATE_NO_WINDOW\<rparr>])"
    by (simp add: launch_world popen_def log_error_def SW_HIDE_def)
  with files out show ?thesis
    unfolding run by (intro conjI) simp_all
qed

theorem cleanup_precedes_launch_witness:
  "lock_acquired later_env \<and> \<not> launcher_flag quiet_world
   \<and> timestamp quiet_world = Content (Number 0) \<and> \<not> time_diff_below later_env (Number 0)
   \<and> collect_files later_env (collection quiet_world) = Some [''a.pdf'']
   \<and> collection (cleanup fresh_world) = Absent
   \<and> fst (election later_env quiet_world) \<in> {Finished [''a.pdf''], Error_logged}
   \<and> (\<exists>after.
          snd (election later_env quiet_world) =
            \<lparr>collection = Absent, timestamp = Absent, launcher_flag = False,
             events = events quiet_world @ [Write_flag, Unlink Collection, Unlink Timestamp,
                Unlink Launcher_flag] @ after\<rparr>
          \<and> (after = [] \<or> after = [Log_error]
             \<or> after = [Popen \<lparr>args = [pyw_exe, merge_script later_env] @ [''a.pdf''],
                   dwFlags = STARTF_USESHOWWINDOW, wShowWindow = SW_HIDE,
                   creationflags = CREATE_NO_WINDOW\<rparr>]))"
proof -
  have h: "lock_acquired later_env" "\<not> launcher_flag quiet_world"
    "timestamp quiet_world = Content (Number 0)" "\<not> time_diff_below later_env (Number 0)"
    by (simp_all add: later_env_def example_env_def quiet_world_def time_diff_below_def)
  have c: "collect_files later_env (collection quiet_world) = Some [''a.pdf'']"
    by code_simp
  from cleanup_precedes_launch [OF h c, of fresh_world] h c show ?thesis
    by (intro conjI) simp_all
qed




text \<open>
  C6 as the claim states it fails: an instance whose second acquisition of the lock times
  out has already written its registration.
\<close>

theorem timeout_after_registration:
  "main example_env id timeout_env (handler_argv ''a.pdf'') fresh_world =
     (Lock_timeout,
      \<lparr>collection = Content (''a.pdf'' @ [LF]), timestamp = Content (Number 0),
       launcher_flag = False,
       events = [Append_collection (''a.pdf'' @ [LF]), Write_timestamp 0,
          Unlink Launcher_flag]\<rparr>)"
  by code_simp

text \<open>
  C6, amended. An instance whose first acquisition of the lock times out changes nothing
  and starts nothing. An instance whose second acquisition times out has made the three
  writes of its registration and makes no further write and no launch: the world it
  leaves is the one its siblings made of its registration. A timed-out election changes
  nothing.
\<close>

theorem lock_timeout_effects:
  "(\<not> lock_acquired e1 \<longrightarrow>
      snd (main e1 siblings e2 argv w) = w
      \<and> fst (main e1 siblings e2 argv w)
          \<in> {No_argument, Path_not_found, Uncaught_exception, Lock_timeout}
      \<and> (2 \<le> length argv \<and> path_exists e1 (path_str e1 (argv ! 1)) = Some True \<longrightarrow>
           main e1 siblings e2 argv w = (Lock_timeout, w)))
   \<and> (\<not> lock_acquired e2 \<and> fst (registration e1 argv w) = Registered \<longrightarrow>
      main e1 siblings e2 argv w = (Lock_timeout, siblings (snd (registration e1 argv w))))
   \<and> (\<not> lock_acquired e \<longrightarrow> election e w = (Lock_timeout, w))"
  by (auto simp: main_def registration_def election_def Let_def split: option.splits bool.splits)

theorem lock_timeout_effects_witness:
  "\<not> lock_acquired timeout_env
   \<and> main timeout_env id later_env (handler_argv ''a.pdf'') fresh_world = (Lock_timeout, fresh_world)
   \<and> fst (registration example_env (handler_argv ''a.pdf'') fresh_world) = Registered
   \<and> main example_env id timeout_env (handler_argv ''a.pdf'') fresh_world =
       (Lock_timeout, id (snd (registration example_env (handler_argv ''a.pdf'') fresh_world)))
   \<and> election timeout_env quiet_world = (Lock_timeout, quiet_world)"
proof -
  have t: "\<not> lock_acquired timeout_env"
    by (simp add: timeout_env_def)
  have r: "fst (registration example_env (handler_argv ''a.pdf'') fresh_world) = Registered"
    by (simp add: registration_def example_env_def handler_argv_def)
  have p: "2 \<le> length (handler_argv ''a.pdf'')"
    "path_exists timeout_env (path_str timeout_env (handler_argv ''a.pdf'' ! 1)) = Some True"
    by (simp_all add: timeout_env_def example_env_def handler_argv_def)
  have a: "main timeout_env id later_env (handler_argv ''a.pdf'') fresh_world
      = (Lock_timeout, fresh_world)"
    using lock_timeout_effects
      [of timeout_env id later_env "handler_argv ''a.pdf''" fresh_world timeout_env] t p
    by blast
  have b: "main example_env id timeout_env (handler_argv ''a.pdf'') fresh_world =
       (Lock_timeout, id (snd (registration example_env (handler_argv ''a.pdf'') fresh_world)))"
    using lock_timeout_effects
      [of example_env id timeout_env "handler_argv ''a.pdf''" fresh_world timeout_env] t r
    by blast
  have c: "election timeout_env quiet_world = (Lock_timeout, quiet_world)"
    using lock_timeout_effects
      [of timeout_env id timeout_env "handler_argv ''a.pdf''" quiet_world timeout_env] t
    by blast
  from t a r b c show ?thesis by (intro conjI)
qed

text \<open>
  C7 as the claim states it fails: the line that a registration appends is the path as
  the handler was given it, and for the argument \<^verbatim>\<open>notes.pdf\<close> it is not an absolute
  path.
\<close>

theorem relative_path_registered:
  "registration example_env (handler_argv ''notes.pdf'') fresh_world =
     (Registered,
      \<lparr>collection = Content (''notes.pdf'' @ [LF]), timestamp = Content (Number 0),
       launcher_flag = False,
       events = [Append_collection (''notes.pdf'' @ [LF]), Write_timestamp 0,
          Unlink Launcher_flag]\<rparr>)
   \<and> \<not> is_absolute ''notes.pdf''"
  by code_simp

text \<open>
  C7, amended. A registration that reaches its critical section changes the world in
  exactly three ways: the collection gets the path, as \<^verbatim>\<open>str(Path(argv[1]))\<close> renders
  the argument, and a line feed appended as its new last line (a collection that was
  absent now holds this one line), the timestamp becomes the current time, the launcher
  flag is gone; the three calls are made in this order and nothing else is touched.
\<close>

theorem registration_three_mutations:
  assumes "length argv \<ge> 2"
    and "path_exists e (path_str e (argv ! 1)) = Some True"
    and "lock_acquired e"
  shows "registration e argv w =
    (Registered,
     w\<lparr>collection :=
         (case collection w of
            Absent \<Rightarrow> Content (path_str e (argv ! 1) @ [LF])
          | Unreadable \<Rightarrow> Unreadable
          | Content before \<Rightarrow> Content (before @ path_str e (argv ! 1) @ [LF])),
       timestamp := Content (Number (now e)),
       launcher_flag := False,
       events := events w @
         [Append_collection (path_str e (argv ! 1) @ [LF]),
          Write_timestamp (now e),
          Unlink Launcher_flag]\<rparr>)"
  using assms
  by (simp add: registration_def register_def Let_def append_text_def split: disk_file.splits)

theorem registration_three_mutations_witness:
  "length (handler_argv ''/sel/report.pdf'') \<ge> 2
   \<and> path_exists example_env (path_str example_env (handler_argv ''/sel/report.pdf'' ! 1)) = Some True
   \<and> lock_acquired example_env
   \<and> registration example_env (handler_argv ''/sel/report.pdf'') fresh_world =
      (Registered,
       \<lparr>collection = Content (''/sel/report.pdf'' @ [LF]),
        timestamp = Content (Number 0), launcher_flag = False,
        events = [Append_collection (''/sel/report.pdf'' @ [LF]), Write_timestamp 0,
           Unlink Launcher_flag]\<rparr>)
   \<and> registration example_env (handler_argv ''/sel/report.pdf'') quiet_world =
      (Registered,
       \<lparr>collection = Content (''a.pdf'' @ [LF] @ ''/sel/report.pdf'' @ [LF]),
        timestamp = Content (Number 0), launcher_flag = False,
        events = [Append_collection (''/sel/report.pdf'' @ [LF]), Write_timestamp 0,
           Unlink Launcher_flag]\<rparr>)"
proof -
  have h: "length (handler_argv ''/sel/report.pdf'') \<ge> 2"
    "path_exists example_env (path_str example_env (handler_argv ''/sel/report.pdf'' ! 1)) = Some True"
    "lock_acquired example_env"
    by (simp_all add: handler_argv_def example_env_def)
  have a: "registration example_env (handler_argv ''/sel/report.pdf'') fresh_world =
      (Registered,
       \<lparr>collection = Content (''/sel/report.pdf'' @ [LF]),
        timestamp = Content (Number 0), launcher_flag = False,
        events = [Append_collection (''/sel/report.pdf'' @ [LF]), Write_timestamp 0,
           Unlink Launcher_flag]\<rparr>)"
    using registration_three_mutations [OF h, of fresh_world]
    by (simp add: handler_argv_def example_env_def fresh_world_def)
  have b: "registration example_env (handler_argv ''/sel/report.pdf'') quiet_world =
      (Registered,
       \<lparr>collection = Content (''a.pdf'' @ [LF] @ ''/sel/report.pdf'' @ [LF]),
        timestamp = Content (Number 0), launcher_flag = False,
        events = [Append_collection (''/sel/report.pdf'' @ [LF]), Write_timestamp 0,
           Unlink Launcher_flag]\<rparr>)"
    using registration_three_mutations [OF h, of quiet_world]
    by (simp add: handler_argv_def example_env_def quiet_world_def)
  from h a b show ?thesis by (intro conjI)
qed

text \<open>
  C8 as the claim states it fails: line 26 tests \<^verbatim>\<open>file_path.exists()\<close>, and a path that
  does not exist at invocation time is not registered.
\<close>

theorem missing_path_not_registered:
  "registration nothing_exists_env (handler_argv ''gone.pdf'') fresh_world =
     (Path_not_found, fresh_world)"
  by code_simp

text \<open>
  C8, amended. Registration validates its input: with the lock available, the path is
  registered when it exists at invocation time, and the instance ends without touching
  the world when it does not, or when the test itself raises. Existence is validated
  again by the leader, whose resolved list holds only paths that exist at resolution
  time.
\<close>

theorem registration_checks_existence:
  assumes "2 \<le> length argv" and "lock_acquired e"
  shows "(path_exists e (path_str e (argv ! 1)) = Some True \<longrightarrow>
            registration e argv w = (Registered, register e (path_str e (argv ! 1)) w))
       \<and> (path_exists e (path_str e (argv ! 1)) = Some False \<longrightarrow>
            registration e argv w = (Path_not_found, w))
       \<and> (path_exists e (path_str e (argv ! 1)) = None \<longrightarrow>
            registration e argv w = (Uncaught_exception, w))
       \<and> (collect_files e' f = Some unique_files \<and> p \<in> set unique_files \<longrightarrow>
            path_exists e' p = Some True)"
  using assms collect_files_exist by (auto simp: registration_def Let_def)

theorem registration_checks_existence_witness:
  "2 \<le> length (handler_argv ''a.pdf'') \<and> lock_acquired example_env
   \<and> path_exists example_env (path_str example_env (handler_argv ''a.pdf'' ! 1)) = Some True
   \<and> registration example_env (handler_argv ''a.pdf'') fresh_world =
       (Registered, register example_env (path_str example_env (handler_argv ''a.pdf'' ! 1)) fresh_world)
   \<and> lock_acquired nothing_exists_env
   \<and> path_exists nothing_exists_env (path_str nothing_exists_env (handler_argv ''a.pdf'' ! 1))
       = Some False
   \<and> registration nothing_exists_env (handler_argv ''a.pdf'') fresh_world =
       (Path_not_found, fresh_world)
   \<and> collect_files later_env (collection quiet_world) = Some [''a.pdf'']
   \<and> ''a.pdf'' \<in> set [''a.pdf'']
   \<and> path_exists later_env ''a.pdf'' = Some True"
proof -
  have len: "2 \<le> length (handler_argv ''a.pdf'')"
    by (simp add: handler_argv_def)
  have l1: "lock_acquired example_env" and l2: "lock_acquired nothing_exists_env"
    by (simp_all add: example_env_def nothing_exists_env_def)
  have x1: "path_exists example_env (path_str example_env (handler_argv ''a.pdf'' ! 1)) = Some True"
    by (simp add: example_env_def)
  have x2: "path_exists nothing_exists_env
      (path_str nothing_exists_env (handler_argv ''a.pdf'' ! 1)) = Some False"
    by (simp add: nothing_exists_env_def)
  have c: "collect_files later_env (collection quiet_world) = Some [''a.pdf'']"
    by code_simp
  have m: "''a.pdf'' \<in> set [''a.pdf'']"
    by simp
  note th1 = registration_checks_existence
    [OF len l1, of fresh_world later_env "collection quiet_world" "[''a.pdf'']" "''a.pdf''"]
  note th2 = registration_checks_existence
    [OF len l2, of fresh_world later_env "collection quiet_world" "[''a.pdf'']" "''a.pdf''"]
  have r1: "registration example_env (handler_argv ''a.pdf'') fresh_world =
       (Registered, register example_env (path_str example_env (handler_argv ''a.pdf'' ! 1)) fresh_world)"
    using th1 x1 by blast
  have r2: "registration nothing_exists_env (handler_argv ''a.pdf'') fresh_world =
       (Path_not_found, fresh_world)"
    using th2 x2 by blast
  have ex: "path_exists later_env ''a.pdf'' = Some True"
    using th1 c m by blast
  from len l1 x1 r1 l2 x2 r2 c m ex show ?thesis by (intro conjI)
qed

text \<open>
  C9. When the leader has written the launcher flag and the collection then cannot be
  opened or decoded, or \<^verbatim>\<open>exists()\<close> raises for one of its lines, the critical section
  ends with the flag present, the collection and the timestamp as they were, and no
  process started. Every later election finds the flag and abstains; the next
  registration removes it.
\<close>

theorem collection_failure_leaves_flag:
  assumes "lock_acquired e" and "\<not> launcher_flag w" and "timestamp w = Content (Number t)"
    and "0.5 \<le> float_sub e (now e) t"
    and "collection w = Absent \<or> collection w = Unreadable
         \<or> collect_files e (collection w) = None"
  shows "election e w =
           (Collection_unreadable, w\<lparr>launcher_flag := True, events := events w @ [Write_flag]\<rparr>)
       \<and> (lock_acquired e' \<longrightarrow>
            election e' (w\<lparr>launcher_flag := True, events := events w @ [Write_flag]\<rparr>) =
              (Launcher_exists, w\<lparr>launcher_flag := True, events := events w @ [Write_flag]\<rparr>))
       \<and> \<not> launcher_flag
            (register e' p (w\<lparr>launcher_flag := True, events := events w @ [Write_flag]\<rparr>))"
proof -
  from assms(5) have "collect_files e (collection w) = None"
    by (auto simp: collect_files_def)
  with assms(1-4) show ?thesis
    by (simp add: election_def Let_def time_diff_below_def register_def)
qed

theorem collection_failure_leaves_flag_witness:
  "lock_acquired later_env \<and> \<not> launcher_flag orphan_world
   \<and> timestamp orphan_world = Content (Number 0) \<and> 0.5 \<le> float_sub later_env (now later_env) 0
   \<and> (collection orphan_world = Absent \<or> collection orphan_world = Unreadable
      \<or> collect_files later_env (collection orphan_world) = None)
   \<and> election later_env orphan_world =
       (Collection_unreadable,
        \<lparr>collection = Absent, timestamp = Content (Number 0), launcher_flag = True,
         events = [Write_flag]\<rparr>)
   \<and> election later_env
        (orphan_world\<lparr>launcher_flag := True, events := events orphan_world @ [Write_flag]\<rparr>) =
       (Launcher_exists,
        orphan_world\<lparr>launcher_flag := True, events := events orphan_world @ [Write_flag]\<rparr>)
   \<and> lock_acquired refusing_env \<and> \<not> launcher_flag quiet_world
   \<and> timestamp quiet_world = Content (Number 0) \<and> 0.5 \<le> float_sub refusing_env (now refusing_env) 0
   \<and> collect_files refusing_env (collection quiet_world) = None
   \<and> election refusing_env quiet_world =
       (Collection_unreadable,
        \<lparr>collection = Content (''a.pdf'' @ [LF]), timestamp = Content (Number 0),
         launcher_flag = True, events = [Write_flag]\<rparr>)"
proof -
  have h: "lock_acquired later_env" "\<not> launcher_flag orphan_world"
    "timestamp orphan_world = Content (Number 0)" "0.5 \<le> float_sub later_env (now later_env) 0"
    "collection orphan_world = Absent \<or> collection orphan_world = Unreadable
      \<or> collect_files later_env (collection orphan_world) = None"
    by (simp_all add: later_env_def example_env_def orphan_world_def quiet_world_def)
  note th = collection_failure_leaves_flag [OF h, of later_env]
  have a: "election later_env orphan_world =
       (Collection_unreadable,
        \<lparr>collection = Absent, timestamp = Content (Number 0), launcher_flag = True,
         events = [Write_flag]\<rparr>)"
    using th by (simp add: orphan_world_def quiet_world_def)
  have b: "election later_env
        (orphan_world\<lparr>launcher_flag := True, events := events orphan_world @ [Write_flag]\<rparr>) =
       (Launcher_exists,
        orphan_world\<lparr>launcher_flag := True, events := events orphan_world @ [Write_flag]\<rparr>)"
    using th h(1) by blast
  have g: "lock_acquired refusing_env" "\<not> launcher_flag quiet_world"
    "timestamp quiet_world = Content (Number 0)"
    "0.5 \<le> float_sub refusing_env (now refusing_env) 0"
    by (simp_all add: refusing_env_def example_env_def quiet_world_def)
  have n: "collect_files refusing_env (collection quiet_world) = None"
    by code_simp
  then have g5: "collection quiet_world = Absent \<or> collection quiet_world = Unreadable
      \<or> collect_files refusing_env (collection quiet_world) = None"
    by (intro disjI2)
  have c: "election refusing_env quiet_world =
       (Collection_unreadable,
        \<lparr>collection = Content (''a.pdf'' @ [LF]), timestamp = Content (Number 0),
         launcher_flag = True, events = [Write_flag]\<rparr>)"
    using collection_failure_leaves_flag [OF g g5, of later_env]
    by (simp add: quiet_world_def)
  from h a b g n c show ?thesis by (intro conjI)
qed






end
